theory Spec2Isabelle
  imports Complex_Main "HOL-Library.Product_Lexorder"
begin

section \<open>Tensors and errors\<close>

text \<open>
  Tensors of the program hold floating point numbers; the embedding works over the reals,
  so every statement below is about the arithmetic the code writes down, not about
  rounding. A one-dimensional tensor is a list, a two-dimensional tensor a list of rows.
  Exceptions of Python and torch are values of \<open>error\<close>.
\<close>

datatype error = IndexError | ValueError | RuntimeError

text \<open>
  A method that mutates \<open>self\<close> and may raise in the middle: both outcomes carry the
  state the object is left in.
\<close>

datatype 's result = Done 's | Raise error 's

type_synonym vec = "real list"
type_synonym tensor2 = "real list list"

definition dot :: "vec \<Rightarrow> vec \<Rightarrow> real" where
  "dot x y = sum_list (map2 (*) x y)"

definition l2_norm :: "vec \<Rightarrow> real" where
  "l2_norm x = sqrt (sum_list (map (\<lambda>v. v * v) x))"

text \<open>\<open>fn.normalize\<close> on one row: \<open>x / max(||x||, eps)\<close> with torch's default \<open>eps = 1e-12\<close>.\<close>

definition fn_normalize_row :: "vec \<Rightarrow> vec" where
  "fn_normalize_row x = map (\<lambda>v. v / max (l2_norm x) (1 / 10 ^ 12)) x"

text \<open>\<open>fn.normalize(t)\<close> and \<open>fn.normalize(t, dim=-1)\<close> on a two-dimensional tensor: row by row.\<close>

definition fn_normalize :: "tensor2 \<Rightarrow> tensor2" where
  "fn_normalize t = map fn_normalize_row t"

text \<open>\<open>torch.mm(a, b.transpose(0, 1))\<close>: entry \<open>(i, j)\<close> is the dot product of row \<open>i\<close> of \<open>a\<close> and row \<open>j\<close> of \<open>b\<close>.\<close>

definition mm_transpose :: "tensor2 \<Rightarrow> tensor2 \<Rightarrow> tensor2" where
  "mm_transpose a b = map (\<lambda>r. map (\<lambda>c. dot r c) b) a"

text \<open>\<open>t.max()\<close> over all entries of a non-empty tensor (given flattened).\<close>

definition tensor_max :: "real list \<Rightarrow> real" where
  "tensor_max xs = fold max (tl xs) (hd xs)"

definition mean :: "real list \<Rightarrow> real" where
  "mean xs = sum_list xs / real (length xs)"

definition relu :: "real \<Rightarrow> real" where
  "relu x = max 0 x"

section \<open>Embedding.py: LocalSplitMLP\<close>

text \<open>\<open>nn.Linear\<close>: \<open>y = x W\<^sup>T + b\<close>, applied to every row of the input.\<close>

record Linear =
  lin_weight :: tensor2
  lin_bias :: vec

definition nn_linear :: "Linear \<Rightarrow> tensor2 \<Rightarrow> tensor2" where
  "nn_linear l inp = map (\<lambda>x. map2 (+) (map (\<lambda>w. dot x w) (lin_weight l)) (lin_bias l)) inp"

definition eye :: "nat \<Rightarrow> tensor2" where
  "eye n = map (\<lambda>i. map (\<lambda>j. if i = j then 1 else 0) [0..<n]) [0..<n]"

definition mse_loss :: "real list \<Rightarrow> real list \<Rightarrow> real" where
  "mse_loss xs ys = mean (map2 (\<lambda>a b. (a - b) * (a - b)) xs ys)"

text \<open>
  The model: the list \<open>center\<close> of center tensors (replaced wholesale by
  \<open>Embedder.update_data\<close>) and the two linear maps, initialised to the identity.
\<close>

record LocalSplitMLP =
  center :: "tensor2 list"
  mlp_image :: Linear
  mlp_text :: Linear

definition LocalSplitMLP_init :: "nat \<Rightarrow> LocalSplitMLP" where
  "LocalSplitMLP_init n =
     \<lparr>center = [],
      mlp_image = \<lparr>lin_weight = eye n, lin_bias = replicate n 0\<rparr>,
      mlp_text = \<lparr>lin_weight = eye n, lin_bias = replicate n 0\<rparr>\<rparr>"

definition regularization :: "LocalSplitMLP \<Rightarrow> real" where
  "regularization m =
     (let d = length (hd (lin_weight (mlp_image m)));
          dt = length (hd (lin_weight (mlp_text m)))
      in (mse_loss (concat (lin_weight (mlp_image m))) (concat (eye d))
          + mse_loss (lin_bias (mlp_image m)) (replicate d 0)
          + mse_loss (concat (lin_weight (mlp_text m))) (concat (eye dt))
          + mse_loss (lin_bias (mlp_text m)) (replicate dt 0)) * 10 ^ 4)"

text \<open>
  \<open>LocalSplitMLP.weight\<close>. The input is a batch of rows. With no center tensor the gate
  is \<open>torch.zeros(1)\<close>. Otherwise all center tensors are concatenated and normalised, the
  matrix of \<open>exp(-10 * (1 - a b\<^sup>T))\<close> is formed, and \<open>.max()\<close>, called without a dimension,
  reduces the whole matrix to one number; it raises on a tensor with no entry.
\<close>

definition weight :: "LocalSplitMLP \<Rightarrow> tensor2 \<Rightarrow> error + real" where
  "weight m inp =
     (let a = fn_normalize inp in
      if length (center m) > 0 then
        (let b = fn_normalize (concat (center m));
             dist = map (map (\<lambda>v. 1 - v)) (mm_transpose a b);
             w = concat (map (map (\<lambda>d. exp (- 10 * d))) dist)
         in if w = [] then Inl RuntimeError else Inr (tensor_max w))
      else Inr 0)"

text \<open>\<open>weight * out + (1 - weight) * inp\<close> with a scalar \<open>weight\<close>, entry by entry.\<close>

definition blend :: "real \<Rightarrow> tensor2 \<Rightarrow> tensor2 \<Rightarrow> tensor2" where
  "blend w out inp = map2 (\<lambda>out_row inp_row. map2 (\<lambda>u v. w * u + (1 - w) * v) out_row inp_row) out inp"

text \<open>
  \<open>encode_text\<close> runs the input through \<open>mlp_image\<close> and \<open>encode_image\<close> through
  \<open>mlp_text\<close>, as the source has it. Both return the pair of the corrected rows and the
  regularisation term.
\<close>

definition LocalSplitMLP_encode_text :: "LocalSplitMLP \<Rightarrow> tensor2 \<Rightarrow> error + (tensor2 \<times> real)" where
  "LocalSplitMLP_encode_text m inp =
     (case weight m inp of
        Inl e \<Rightarrow> Inl e
      | Inr w \<Rightarrow>
          (let out = fn_normalize (nn_linear (mlp_image m) inp);
               out = blend w out inp
           in Inr (fn_normalize out, regularization m)))"

definition LocalSplitMLP_encode_image :: "LocalSplitMLP \<Rightarrow> tensor2 \<Rightarrow> error + (tensor2 \<times> real)" where
  "LocalSplitMLP_encode_image m inp =
     (case weight m inp of
        Inl e \<Rightarrow> Inl e
      | Inr w \<Rightarrow>
          (let out = fn_normalize (nn_linear (mlp_text m) inp);
               out = blend w out inp
           in Inr (fn_normalize out, regularization m)))"

section \<open>Embedding.py: CenterMarginLoss\<close>

text \<open>
  \<open>CenterMarginLoss.forward\<close>, with \<open>center\<close> a single row. \<open>pos_dists.max(dim=0)\<close>
  raises when there is no positive row; with no negative row the mean of an empty tensor
  is nan, which is the result \<open>None\<close> here.
\<close>

definition CenterMarginLoss_forward :: "real \<Rightarrow> vec \<Rightarrow> tensor2 \<Rightarrow> tensor2 \<Rightarrow> error + real option" where
  "CenterMarginLoss_forward margin center_row pos neg =
     (let pos_dists = map (\<lambda>p. 1 - dot center_row p) pos;
          neg_dists = map (\<lambda>q. 1 - dot center_row q) neg
      in if pos_dists = [] then Inl IndexError
         else (let pos_term = pos_dists;
                   neg_term = map (\<lambda>d. relu (tensor_max pos_dists - d + margin)) neg_dists
               in if neg_term = [] then Inr None
                  else Inr (Some (mean pos_term + mean neg_term))))"

section \<open>Embedding.py: Embedder\<close>

text \<open>
  The pretrained encoder is an external collaborator: \<open>enc_text\<close> stands for
  \<open>encoder.encode_text\<close> applied to the tokens of a text (tokens are only ever handed to
  the encoder, so a token tensor is represented by the text it was made from), and
  \<open>enc_image\<close> for \<open>encoder.encode_image\<close> applied to a preprocessed image. Both return
  a tensor of rows. The state of the Adam optimizer has the type \<open>'o\<close>.
\<close>

record 'o Embedder =
  embedder :: LocalSplitMLP
  optimizer :: 'o

text \<open>\<open>Embedder.__init__\<close>: \<open>self.loss_func = CenterMarginLoss(0.1)\<close>.\<close>

definition loss_func :: "vec \<Rightarrow> tensor2 \<Rightarrow> tensor2 \<Rightarrow> error + real option" where
  "loss_func = CenterMarginLoss_forward (1 / 10)"

definition Embedder_encode_text :: "(string \<Rightarrow> tensor2) \<Rightarrow> string \<Rightarrow> tensor2" where
  "Embedder_encode_text enc_text text = fn_normalize (enc_text text)"

definition embed_text :: "(string \<Rightarrow> tensor2) \<Rightarrow> 'o Embedder \<Rightarrow> string \<Rightarrow> error + tensor2" where
  "embed_text enc_text E text =
     (case LocalSplitMLP_encode_text (embedder E) (Embedder_encode_text enc_text text) of
        Inl e \<Rightarrow> Inl e
      | Inr r \<Rightarrow> Inr (fst r))"

definition Embedder_encode_image :: "('img \<Rightarrow> tensor2) \<Rightarrow> 'img \<Rightarrow> tensor2" where
  "Embedder_encode_image enc_image img = fn_normalize (enc_image img)"

definition embed_image :: "('img \<Rightarrow> tensor2) \<Rightarrow> 'o Embedder \<Rightarrow> 'img \<Rightarrow> error + tensor2" where
  "embed_image enc_image E img =
     (case LocalSplitMLP_encode_image (embedder E) (Embedder_encode_image enc_image img) of
        Inl e \<Rightarrow> Inl e
      | Inr r \<Rightarrow> Inr (fst r))"


definition refine_text_embedding :: "'o Embedder \<Rightarrow> tensor2 \<Rightarrow> error + (tensor2 \<times> real)" where
  "refine_text_embedding E embedding = LocalSplitMLP_encode_text (embedder E) embedding"

text \<open>
  \<open>Embedder.update_data\<close>: for every group, its positive rows and then its normalised text
  encoding are appended to a fresh list, which replaces \<open>embedder.center\<close> at the end.
\<close>

fun update_data_loop ::
  "(string \<Rightarrow> tensor2) \<Rightarrow> string list \<Rightarrow> tensor2 list \<Rightarrow> nat list \<Rightarrow> tensor2 list \<Rightarrow> error + tensor2 list" where
  "update_data_loop enc_text group_embeddings pos_example [] acc = Inr acc"
| "update_data_loop enc_text group_embeddings pos_example (i # rest) acc =
     (if i < length pos_example
      then update_data_loop enc_text group_embeddings pos_example rest
             (acc @ [pos_example ! i,
                     fn_normalize (Embedder_encode_text enc_text (group_embeddings ! i))])
      else Inl IndexError)"

definition update_data ::
  "(string \<Rightarrow> tensor2) \<Rightarrow> 'o Embedder \<Rightarrow> string list \<Rightarrow> tensor2 list \<Rightarrow> tensor2 list \<Rightarrow> 'o Embedder result" where
  "update_data enc_text E group_embeddings pos_example neg_example =
     (case update_data_loop enc_text group_embeddings pos_example [0..<length group_embeddings] [] of
        Inl e \<Rightarrow> Raise e E
      | Inr c \<Rightarrow> Done (E\<lparr>embedder := (embedder E)\<lparr>center := c\<rparr>\<rparr>))"




section \<open>SearchEngine.py\<close>

record 'o SearchEngine =
  encodings :: tensor2
  embeddings :: tensor2
  engine_embedder :: "'o Embedder"
  group_embeddings :: "string list"
  pos_example :: "tensor2 list"
  neg_example :: "tensor2 list"
  data_changed :: bool
  use_embedding :: bool

text \<open>
  \<open>table * valid.unsqueeze(1)\<close>: every row is multiplied by 1 where the mask is true and by
  0 where it is false. The shapes \<open>[N, D]\<close> and \<open>[M, 1]\<close> broadcast when \<open>N = M\<close> or one
  of them is 1.
\<close>

definition scale_row :: "vec \<Rightarrow> bool \<Rightarrow> vec" where
  "scale_row row b = map (\<lambda>v. v * (if b then 1 else 0)) row"

definition mask_rows :: "tensor2 \<Rightarrow> bool list \<Rightarrow> error + tensor2" where
  "mask_rows t valid =
     (if length valid = length t then Inr (map2 scale_row t valid)
      else if length valid = 1 then Inr (map (\<lambda>row. scale_row row (hd valid)) t)
      else if length t = 1 then Inr (map (\<lambda>b. scale_row (hd t) b) valid)
      else Inl RuntimeError)"

text \<open>\<open>(masked @ features.T)[:, 0]\<close>: the similarity of every row to the first query row.\<close>

definition similarity_column0 :: "tensor2 \<Rightarrow> tensor2 \<Rightarrow> error + real list" where
  "similarity_column0 masked features =
     (case features of
        [] \<Rightarrow> Inl IndexError
      | f # _ \<Rightarrow> Inr (map (\<lambda>row. dot row f) masked))"

text \<open>
  \<open>values.topk(k)\<close>: the indices of the \<open>k\<close> largest values, largest first; it raises when
  \<open>k\<close> exceeds the number of values. torch does not fix the order of equal values, nor
  which of them it returns: the parameter \<open>tie\<close> is the unknown rank it gives to an index
  among equal values (the lower rank first), and every statement about \<open>topk\<close> below is
  for every \<open>tie\<close>.
\<close>

definition topk :: "(nat \<Rightarrow> nat) \<Rightarrow> real list \<Rightarrow> nat \<Rightarrow> error + nat list" where
  "topk tie vals k =
     (if length vals < k then Inl RuntimeError
      else Inr (take k (sort_key (\<lambda>i. (- (vals ! i), tie i)) [0..<length vals])))"

definition search_by_text ::
  "(nat \<Rightarrow> nat) \<Rightarrow> (string \<Rightarrow> tensor2) \<Rightarrow> 'o SearchEngine \<Rightarrow> bool list \<Rightarrow> string \<Rightarrow> nat \<Rightarrow>
   error + nat list" where
  "search_by_text tie enc_text se valid text k =
     (let k = min k (length (filter (\<lambda>b. b) valid)) in
      case (if use_embedding se then embed_text enc_text (engine_embedder se) text
            else Inr (Embedder_encode_text enc_text text)) of
        Inl e \<Rightarrow> Inl e
      | Inr text_features \<Rightarrow>
     (case mask_rows (if use_embedding se then embeddings se else encodings se) valid of
        Inl e \<Rightarrow> Inl e
      | Inr masked \<Rightarrow>
     (case similarity_column0 masked text_features of
        Inl e \<Rightarrow> Inl e
      | Inr similarity \<Rightarrow> topk tie similarity k)))"

text \<open>\<open>search_by_image\<close> is the same computation on the image encoder, without the clamp of \<open>topk\<close>.\<close>

definition search_by_image ::
  "(nat \<Rightarrow> nat) \<Rightarrow> ('img \<Rightarrow> tensor2) \<Rightarrow> 'o SearchEngine \<Rightarrow> bool list \<Rightarrow> 'img \<Rightarrow> nat \<Rightarrow>
   error + nat list" where
  "search_by_image tie enc_image se valid img k =
     (case (if use_embedding se then embed_image enc_image (engine_embedder se) img
            else Inr (Embedder_encode_image enc_image img)) of
        Inl e \<Rightarrow> Inl e
      | Inr image_features \<Rightarrow>
     (case mask_rows (if use_embedding se then embeddings se else encodings se) valid of
        Inl e \<Rightarrow> Inl e
      | Inr masked \<Rightarrow>
     (case similarity_column0 masked image_features of
        Inl e \<Rightarrow> Inl e
      | Inr similarity \<Rightarrow> topk tie similarity k)))"






section \<open>ArtSearch.py: the relevance state\<close>

text \<open>
  \<open>positive\<close> and \<open>negative\<close> are boolean tensors with one row per group, row 0 being the
  canvas; \<open>groups\<close> is the list of the user groups, group \<open>k\<close> of the list owning row
  \<open>k + 1\<close>. The type \<open>'g\<close> is that of the group objects.
\<close>

record 'g ArtSearch =
  paths :: "string list"
  positive :: "bool list list"
  negative :: "bool list list"
  groups :: "'g list"

text \<open>
  \<open>t[i]\<close> with a Python integer on a dimension of size \<open>n\<close>: \<open>-n .. -1\<close> count from the
  end, anything outside \<open>-n .. n-1\<close> raises. torch unpacks the integer to 64 bits before it
  looks at the size: an integer that does not fit raises the overflow error of the
  unpacking, a \<open>ValueError\<close>, and only one that fits raises \<open>IndexError\<close>. The size of a
  dimension is below \<open>2\<^sup>6\<^sup>3\<close>, so an integer that does not fit is never within the size.
\<close>

definition tensor_index :: "nat \<Rightarrow> int \<Rightarrow> error + nat" where
  "tensor_index n i =
     (if 0 \<le> i \<and> i < int n then Inr (nat i)
      else if - int n \<le> i \<and> i < 0 then Inr (nat (int n + i))
      else if i < - (2 ^ 63) \<or> 2 ^ 63 \<le> i then Inl ValueError
      else Inl IndexError)"

text \<open>\<open>t[g][i] = v\<close> on a tensor of rows.\<close>

definition set_entry :: "bool list list \<Rightarrow> nat \<Rightarrow> int \<Rightarrow> bool \<Rightarrow> error + bool list list" where
  "set_entry t g i v =
     (if g < length t then
        (case tensor_index (length (t ! g)) i of
           Inl e \<Rightarrow> Inl e
         | Inr j \<Rightarrow> Inr (t[g := (t ! g)[j := v]]))
      else Inl IndexError)"

text \<open>
  The three canvas marks have the same body, \<open>self.positive[0][image_id] = p\<close> followed by
  \<open>self.negative[0][image_id] = n\<close>, with different constants; \<open>set_both\<close> is that body.
\<close>

definition set_both :: "int \<Rightarrow> bool \<Rightarrow> bool \<Rightarrow> 'g ArtSearch \<Rightarrow> 'g ArtSearch result" where
  "set_both image_id p n s =
     (case set_entry (positive s) 0 image_id p of
        Inl e \<Rightarrow> Raise e s
      | Inr pos \<Rightarrow>
          (case set_entry (negative s) 0 image_id n of
             Inl e \<Rightarrow> Raise e (s\<lparr>positive := pos\<rparr>)
           | Inr neg \<Rightarrow> Done (s\<lparr>positive := pos, negative := neg\<rparr>)))"

definition setImageNeutral :: "int \<Rightarrow> 'g ArtSearch \<Rightarrow> 'g ArtSearch result" where
  "setImageNeutral image_id s = set_both image_id False False s"

definition setImageNegative :: "int \<Rightarrow> 'g ArtSearch \<Rightarrow> 'g ArtSearch result" where
  "setImageNegative image_id s = set_both image_id False True s"

definition setImagePositive :: "int \<Rightarrow> 'g ArtSearch \<Rightarrow> 'g ArtSearch result" where
  "setImagePositive image_id s = set_both image_id True False s"

text \<open>
  \<open>create_group\<close>: the group is appended; when the tensors have no row for it yet, a row of
  zeros (\<open>torch.zeros_like(self.positive[:1])\<close>) is appended to \<open>positive\<close> and a copy of
  row 0 (\<open>self.negative[:1].clone()\<close>) to \<open>negative\<close>.
\<close>

definition create_group :: "'g \<Rightarrow> 'g ArtSearch \<Rightarrow> 'g ArtSearch" where
  "create_group grp s =
     (let s1 = s\<lparr>groups := groups s @ [grp]\<rparr> in
      if length (positive s1) \<le> length (groups s1) then
        s1\<lparr>positive := positive s1 @ map (map (\<lambda>_. False)) (take 1 (positive s1)),
           negative := negative s1 @ take 1 (negative s1)\<rparr>
      else s1)"

text \<open>
  The local function \<open>delete\<close> of \<open>remove_group\<close>, called with \<open>dim = 0\<close>: the rows whose
  index is not \<open>ind\<close>, in order.
\<close>

definition delete :: "'a list \<Rightarrow> nat \<Rightarrow> 'a list" where
  "delete arr ind = map (\<lambda>i. arr ! i) (filter (\<lambda>i. i \<noteq> ind) [0..<length arr])"

text \<open>\<open>list.index\<close>: the position of the first equal element, or \<open>ValueError\<close>.\<close>

fun list_index :: "'a list \<Rightarrow> 'a \<Rightarrow> error + nat" where
  "list_index [] x = Inl ValueError"
| "list_index (y # ys) x =
     (if y = x then Inr 0
      else (case list_index ys x of Inl e \<Rightarrow> Inl e | Inr k \<Rightarrow> Inr (Suc k)))"

definition remove_group :: "'g \<Rightarrow> 'g ArtSearch \<Rightarrow> 'g ArtSearch result" where
  "remove_group grp s =
     (case list_index (groups s) grp of
        Inl e \<Rightarrow> Raise e s
      | Inr k \<Rightarrow>
          (let index = k + 1;
               s1 = s\<lparr>groups := remove1 grp (groups s)\<rparr>
           in Done (s1\<lparr>positive := delete (positive s1) index,
                       negative := delete (negative s1) index\<rparr>)))"

text \<open>\<open>row.nonzero().flatten().tolist()\<close>: the indices of the true entries, ascending.\<close>

definition nonzero :: "bool list \<Rightarrow> int list" where
  "nonzero row = map int (filter (\<lambda>i. row ! i) [0..<length row])"

record persisted =
  p_positive :: "int list"
  p_negative :: "int list"

definition serialize :: "'g ArtSearch \<Rightarrow> error + persisted" where
  "serialize s =
     (if positive s = [] \<or> negative s = [] then Inl IndexError
      else Inr \<lparr>p_positive = nonzero (positive s ! 0), p_negative = nonzero (negative s ! 0)\<rparr>)"

text \<open>The two loops of \<open>deserialize\<close>: \<open>t[0][index] = True\<close> for every index, in order, until one raises.\<close>

fun set_all :: "bool list list \<Rightarrow> int list \<Rightarrow> error option \<times> bool list list" where
  "set_all t [] = (None, t)"
| "set_all t (index # rest) =
     (case set_entry t 0 index True of
        Inl e \<Rightarrow> (Some e, t)
      | Inr t1 \<Rightarrow> set_all t1 rest)"

definition deserialize :: "persisted \<Rightarrow> 'g ArtSearch \<Rightarrow> 'g ArtSearch result" where
  "deserialize data s =
     (let s1 = s\<lparr>groups := []\<rparr>;
          s2 = s1\<lparr>positive := [replicate (length (paths s1)) False]\<rparr>;
          s3 = s2\<lparr>negative := [replicate (length (paths s2)) False]\<rparr>
      in case set_all (positive s3) (p_positive data) of
           (Some e, pos) \<Rightarrow> Raise e (s3\<lparr>positive := pos\<rparr>)
         | (None, pos) \<Rightarrow>
             (case set_all (negative s3) (p_negative data) of
                (Some e, neg) \<Rightarrow> Raise e (s3\<lparr>positive := pos, negative := neg\<rparr>)
              | (None, neg) \<Rightarrow> Done (s3\<lparr>positive := pos, negative := neg\<rparr>)))"

text \<open>
  \<open>restrict_search\<close>. \<open>meta key value\<close> stands for the ids that the metadata engine of
  column \<open>key\<close> returns for \<open>value\<close>. Filters with an empty value and filters without any
  result are dropped. When a result list is left, the ids common to all of them are marked
  in a mask of zeros; indexing with the tensor of an empty intersection, which has no
  integer type, raises.
\<close>

definition mask_and_not :: "bool list \<Rightarrow> bool list \<Rightarrow> bool list" where
  "mask_and_not row valid = map2 (\<lambda>r v. \<not> r \<and> v) row valid"

definition restrict_search ::
  "(string \<Rightarrow> string \<Rightarrow> int list) \<Rightarrow> 'g ArtSearch \<Rightarrow> (string \<times> string) list \<Rightarrow> error + bool list" where
  "restrict_search meta s filters =
     (let search_results = map (\<lambda>kv. meta (fst kv) (snd kv)) (filter (\<lambda>kv. snd kv \<noteq> []) filters);
          search_results = filter (\<lambda>r. r \<noteq> []) search_results
      in if positive s = [] \<or> negative s = [] then Inl IndexError
         else if search_results \<noteq> [] then
           (let constraints =
                  filter (\<lambda>x. list_all (\<lambda>r. List.member r x) (tl search_results))
                    (remdups (hd search_results))
            in if constraints = [] then Inl IndexError
               else
                 (case set_all [map (\<lambda>_. False) (positive s ! 0)] constraints of
                    (Some e, _) \<Rightarrow> Inl e
                  | (None, valid) \<Rightarrow>
                      Inr (mask_and_not (negative s ! 0) (mask_and_not (positive s ! 0) (valid ! 0)))))
         else Inr (mask_and_not (positive s ! 0) (map Not (negative s ! 0))))"


section \<open>Vocabulary of the properties\<close>

text \<open>
  An index \<open>i\<close> that a row of \<open>n\<close> entries accepts, the entry it addresses, and the row
  obtained from \<open>r\<close> by setting the entries addressed by a list of indices.
\<close>

definition in_range :: "nat \<Rightarrow> int \<Rightarrow> bool" where
  "in_range n i = (- int n \<le> i \<and> i < int n)"

definition item_of :: "nat \<Rightarrow> int \<Rightarrow> nat" where
  "item_of n i = (if i < 0 then nat (int n + i) else nat i)"

definition mark_items :: "nat \<Rightarrow> int list \<Rightarrow> bool list \<Rightarrow> bool list" where
  "mark_items n js r = fold (\<lambda>i r'. r'[item_of n i := True]) js r"

text \<open>
  The error of an index that is not accepted, and the first index of a list that a row of
  \<open>n\<close> entries does not accept.
\<close>

definition index_failure :: "int \<Rightarrow> error" where
  "index_failure i = (if i < - (2 ^ 63) \<or> 2 ^ 63 \<le> i then ValueError else IndexError)"

definition first_rejected :: "nat \<Rightarrow> int list \<Rightarrow> int" where
  "first_rejected n js = hd (dropWhile (in_range n) js)"

text \<open>The row of \<open>n\<close> entries left by a loop of \<open>deserialize\<close> that stops at the first index it cannot accept.\<close>

definition applied_prefix :: "nat \<Rightarrow> int list \<Rightarrow> bool list" where
  "applied_prefix n js = mark_items n (takeWhile (in_range n) js) (replicate n False)"

text \<open>
  The frame of a canvas mark on item \<open>i\<close>: between \<open>s\<close> and \<open>s'\<close> the group list, the
  paths, the shape of both tensors, every row but row 0 and every entry of row 0 but
  entry \<open>i\<close> are the same.
\<close>

definition only_canvas_item_changed :: "nat \<Rightarrow> 'g ArtSearch \<Rightarrow> 'g ArtSearch \<Rightarrow> bool" where
  "only_canvas_item_changed i s s' =
     (groups s' = groups s \<and> paths s' = paths s \<and>
      length (positive s') = length (positive s) \<and> length (negative s') = length (negative s) \<and>
      length (positive s' ! 0) = length (positive s ! 0) \<and>
      length (negative s' ! 0) = length (negative s ! 0) \<and>
      (\<forall>g. g \<noteq> 0 \<longrightarrow> positive s' ! g = positive s ! g \<and> negative s' ! g = negative s ! g) \<and>
      (\<forall>j. j \<noteq> i \<longrightarrow> positive s' ! 0 ! j = positive s ! 0 ! j \<and> negative s' ! 0 ! j = negative s ! 0 ! j))"

text \<open>
  The margin loss in the words of the specification: with the distance
  \<open>d(x, y) = 1 - x \<cdot> y\<close>, the mean over the positives of their distance to the center,
  plus the mean over the negatives of \<open>relu(max\<^sub>p d(c, p) - d(c, q) + margin)\<close>.
\<close>

definition cos_dist :: "vec \<Rightarrow> vec \<Rightarrow> real" where
  "cos_dist x y = 1 - dot x y"

definition margin_loss_spec :: "real \<Rightarrow> vec \<Rightarrow> tensor2 \<Rightarrow> tensor2 \<Rightarrow> real" where
  "margin_loss_spec margin c P Q =
     (\<Sum>p\<leftarrow>P. cos_dist c p) / real (length P)
     + (\<Sum>q\<leftarrow>Q. max 0 (Max ((\<lambda>p. cos_dist c p) ` set P) - cos_dist c q + margin)) / real (length Q)"

text \<open>The cosine similarity of two rows, and the largest one of a row to a non-empty list of centers.\<close>

definition cosine_similarity :: "vec \<Rightarrow> vec \<Rightarrow> real" where
  "cosine_similarity x y = dot (fn_normalize_row x) (fn_normalize_row y)"

definition max_cosine_similarity :: "vec \<Rightarrow> tensor2 \<Rightarrow> real" where
  "max_cosine_similarity e cs = Max ((\<lambda>c. cosine_similarity e c) ` set cs)"

text \<open>
  The centers of one domain. \<open>Embedder.update_data\<close> lays the center list out as the
  positive image rows of the first group, its text center, the positive image rows of the
  second group, and so on. The gate in the words of the specification looks at the centers
  of its own domain only.
\<close>

datatype domain = TextDomain | ImageDomain

fun domain_centers :: "domain \<Rightarrow> tensor2 list \<Rightarrow> tensor2" where
  "domain_centers d [] = []"
| "domain_centers d [p] = (case d of ImageDomain \<Rightarrow> p | TextDomain \<Rightarrow> [])"
| "domain_centers d (p # t # rest) =
     (case d of ImageDomain \<Rightarrow> p | TextDomain \<Rightarrow> t) @ domain_centers d rest"

definition weight_for_spec :: "domain \<Rightarrow> LocalSplitMLP \<Rightarrow> vec \<Rightarrow> real" where
  "weight_for_spec d m e =
     (if domain_centers d (center m) = [] then 0
      else exp (- 10 * (1 - max_cosine_similarity e (domain_centers d (center m)))))"





section \<open>The relevance state: groups\<close>

lemma delete_conv: "delete arr ind = take ind arr @ drop (Suc ind) arr"
proof (induction arr arbitrary: ind rule: rev_induct)
  case Nil
  then show ?case by (simp add: delete_def)
next
  case (snoc x xs)
  have IH: "map ((!) xs) (filter (\<lambda>i. i \<noteq> ind) [0..<length xs]) = take ind xs @ drop (Suc ind) xs"
    using snoc[of ind] by (simp add: delete_def)
  have eq: "map ((!) (xs @ [x])) (filter (\<lambda>i. i \<noteq> ind) [0..<length xs])
              = map ((!) xs) (filter (\<lambda>i. i \<noteq> ind) [0..<length xs])"
    by (rule map_cong) (auto simp: nth_append)
  consider "ind < length xs" | "ind = length xs" | "length xs < ind" by linarith
  then show ?case
  proof cases
    case 1
    then show ?thesis using IH eq by (simp add: delete_def)
  next
    case 2
    then show ?thesis using IH eq by (simp add: delete_def)
  next
    case 3
    then show ?thesis using IH eq by (simp add: delete_def)
  qed
qed

lemma list_index_Some:
  "x \<in> set xs \<Longrightarrow>
     \<exists>k. list_index xs x = Inr k \<and> k < length xs \<and> xs ! k = x \<and>
         remove1 x xs = take k xs @ drop (Suc k) xs"
proof (induction xs)
  case Nil
  then show ?case by simp
next
  case (Cons y ys)
  show ?case
  proof (cases "y = x")
    case True
    then show ?thesis by simp
  next
    case False
    with Cons obtain k where "list_index ys x = Inr k" "k < length ys" "ys ! k = x"
      "remove1 x ys = take k ys @ drop (Suc k) ys"
      by auto
    with False show ?thesis by simp
  qed
qed

text \<open>
  C4 (the code departs from the claim). A new group should start with an empty positive
  and an empty negative set. \<open>create_group\<close> appends a row of zeros to \<open>positive\<close>, but the
  row it appends to \<open>negative\<close> is a copy of the canvas row: with item 1 rejected on the
  canvas, item 1 is negative in the group just created.
\<close>

theorem create_group_negative_row_is_canvas_copy:
  "create_group (1::nat)
     \<lparr>paths = [''a'', ''b''], positive = [[False, False]], negative = [[False, True]], groups = []\<rparr>
   = \<lparr>paths = [''a'', ''b''], positive = [[False, False], [False, False]],
      negative = [[False, True], [False, True]], groups = [1]\<rparr>"
  by (simp add: create_group_def)

text \<open>
  C5. When \<open>grp\<close> is a user group, at position \<open>k\<close> of the group list and so owning row
  \<open>k + 1\<close>, \<open>remove_group\<close> returns normally, the group list is one shorter, the tensors
  lose one row, every row below \<open>k + 1\<close> is unchanged and every row \<open>j\<close> from \<open>k + 1\<close> on
  holds what row \<open>j + 1\<close> held; the group list shifts in the same way.
\<close>

theorem remove_group_shift:
  assumes "grp \<in> set (groups s)"
  shows "\<exists>k s'. list_index (groups s) grp = Inr k \<and> remove_group grp s = Done s' \<and>
      Suc (length (groups s')) = length (groups s) \<and>
      (Suc k < length (positive s) \<longrightarrow> Suc (length (positive s')) = length (positive s)) \<and>
      (Suc k < length (negative s) \<longrightarrow> Suc (length (negative s')) = length (negative s)) \<and>
      (\<forall>j. j < Suc k \<longrightarrow> j < length (positive s) \<longrightarrow> positive s' ! j = positive s ! j) \<and>
      (\<forall>j. j < Suc k \<longrightarrow> j < length (negative s) \<longrightarrow> negative s' ! j = negative s ! j) \<and>
      (\<forall>j. Suc k \<le> j \<longrightarrow> Suc j < length (positive s) \<longrightarrow> positive s' ! j = positive s ! Suc j) \<and>
      (\<forall>j. Suc k \<le> j \<longrightarrow> Suc j < length (negative s) \<longrightarrow> negative s' ! j = negative s ! Suc j) \<and>
      (\<forall>j. j < k \<longrightarrow> groups s' ! j = groups s ! j) \<and>
      (\<forall>j. k \<le> j \<longrightarrow> Suc j < length (groups s) \<longrightarrow> groups s' ! j = groups s ! Suc j)"
proof -
  from list_index_Some[OF assms] obtain k where
    k: "list_index (groups s) grp = Inr k" "k < length (groups s)"
       "remove1 grp (groups s) = take k (groups s) @ drop (Suc k) (groups s)"
    by blast
  let ?s' = "s\<lparr>groups := take k (groups s) @ drop (Suc k) (groups s),
               positive := take (Suc k) (positive s) @ drop (Suc (Suc k)) (positive s),
               negative := take (Suc k) (negative s) @ drop (Suc (Suc k)) (negative s)\<rparr>"
  have r: "remove_group grp s = Done ?s'"
    by (simp add: remove_group_def k delete_conv)
  have g: "Suc (length (groups ?s')) = length (groups s)"
    using k(2) by simp
  show ?thesis
    apply (rule exI[of _ k], rule exI[of _ ?s'])
    using k(1) k(2) r g
    by (auto simp add: nth_append min_def)
qed

theorem remove_group_shift_witness:
  "remove_group (20::nat)
     \<lparr>paths = [''a'', ''b''],
      positive = [[True, True], [True, False], [False, False], [False, True]],
      negative = [[False, False], [False, True], [True, True], [True, False]],
      groups = [10, 20, 30]\<rparr>
   = Done \<lparr>paths = [''a'', ''b''],
      positive = [[True, True], [True, False], [False, True]],
      negative = [[False, False], [False, True], [True, False]],
      groups = [10, 30]\<rparr>"
  using remove_group_shift[of 20 "\<lparr>paths = [''a'', ''b''],
      positive = [[True, True], [True, False], [False, False], [False, True]],
      negative = [[False, False], [False, True], [True, True], [True, False]],
      groups = [10, 20, 30::nat]\<rparr>"]
  by (simp add: remove_group_def delete_conv)

section \<open>The relevance state: canvas marks\<close>

lemma set_both_frame:
  assumes "positive s \<noteq> []" "negative s \<noteq> []"
    and "i < length (positive s ! 0)" "i < length (negative s ! 0)"
  shows "\<exists>s'. set_both (int i) p n s = Done s' \<and> only_canvas_item_changed i s s' \<and>
           positive s' ! 0 ! i = p \<and> negative s' ! 0 ! i = n"
proof -
  let ?pos = "(positive s)[0 := (positive s ! 0)[i := p]]"
  let ?neg = "(negative s)[0 := (negative s ! 0)[i := n]]"
  have p: "set_entry (positive s) 0 (int i) p = Inr ?pos"
    using assms by (simp add: set_entry_def tensor_index_def)
  have n: "set_entry (negative s) 0 (int i) n = Inr ?neg"
    using assms by (simp add: set_entry_def tensor_index_def)
  have d: "set_both (int i) p n s = Done (s\<lparr>positive := ?pos, negative := ?neg\<rparr>)"
    by (simp add: set_both_def p n)
  have f: "only_canvas_item_changed i s (s\<lparr>positive := ?pos, negative := ?neg\<rparr>)"
    using assms by (simp add: only_canvas_item_changed_def)
  have v: "?pos ! 0 ! i = p" "?neg ! 0 ! i = n" using assms by simp_all
  show ?thesis using d f v by simp
qed

text \<open>
  C10. For an item id \<open>i\<close> within the canvas row, each of \<open>setImagePositive\<close>,
  \<open>setImageNegative\<close> and \<open>setImageNeutral\<close> returns normally and changes nothing but
  entry \<open>i\<close> of row 0 of \<open>positive\<close> and \<open>negative\<close>: every other entry, every row of a
  user group and the group list are as before.
\<close>

theorem setImage_frame:
  assumes "positive s \<noteq> []" "negative s \<noteq> []"
    and "i < length (positive s ! 0)" "i < length (negative s ! 0)"
  shows "(\<exists>s'. setImagePositive (int i) s = Done s' \<and> only_canvas_item_changed i s s' \<and>
              positive s' ! 0 ! i \<and> \<not> negative s' ! 0 ! i) \<and>
         (\<exists>s'. setImageNegative (int i) s = Done s' \<and> only_canvas_item_changed i s s' \<and>
              \<not> positive s' ! 0 ! i \<and> negative s' ! 0 ! i) \<and>
         (\<exists>s'. setImageNeutral (int i) s = Done s' \<and> only_canvas_item_changed i s s' \<and>
              \<not> positive s' ! 0 ! i \<and> \<not> negative s' ! 0 ! i)"
  using set_both_frame[OF assms, of True False] set_both_frame[OF assms, of False True]
    set_both_frame[OF assms, of False False]
  unfolding setImagePositive_def setImageNegative_def setImageNeutral_def by blast

theorem setImage_frame_witness:
  "\<exists>s'. setImagePositive (int 1)
           \<lparr>paths = [''a'', ''b''], positive = [[False, False], [True, False]],
            negative = [[False, True], [False, True]], groups = [3::nat]\<rparr> = Done s' \<and>
        positive s' = [[False, True], [True, False]] \<and>
        negative s' = [[False, False], [False, True]] \<and> groups s' = [3]"
  using setImage_frame[of "\<lparr>paths = [''a'', ''b''], positive = [[False, False], [True, False]],
        negative = [[False, True], [False, True]], groups = [3::nat]\<rparr>" 1]
  by (simp add: setImagePositive_def set_both_def set_entry_def tensor_index_def)

section \<open>The relevance state: persistence\<close>

lemma length_mark_items [simp]: "length (mark_items n js r) = length r"
  by (induction js arbitrary: r) (simp_all add: mark_items_def)

lemma tensor_index_conv:
  "tensor_index n i = (if in_range n i then Inr (item_of n i) else Inl (index_failure i))"
  by (auto simp: tensor_index_def in_range_def item_of_def index_failure_def)

lemma set_all_conv:
  "set_all [r] js =
     (if list_all (in_range (length r)) js then None
      else Some (index_failure (first_rejected (length r) js)),
      [mark_items (length r) (takeWhile (in_range (length r)) js) r])"
proof (induction js arbitrary: r)
  case Nil
  then show ?case by (simp add: mark_items_def)
next
  case (Cons i js)
  show ?case
  proof (cases "in_range (length r) i")
    case True
    have "set_entry [r] 0 i True = Inr [r[item_of (length r) i := True]]"
      using True by (simp add: set_entry_def tensor_index_conv)
    then show ?thesis
      using True Cons[of "r[item_of (length r) i := True]"]
      by (simp add: mark_items_def first_rejected_def)
  next
    case False
    then show ?thesis
      by (simp add: set_entry_def tensor_index_conv mark_items_def first_rejected_def)
  qed
qed

lemma nth_mark_items:
  "j < length r \<Longrightarrow> mark_items n js r ! j = (r ! j \<or> j \<in> item_of n ` set js)"
proof (induction js arbitrary: r)
  case Nil
  then show ?case by (simp add: mark_items_def)
next
  case (Cons i js)
  have step: "mark_items n (i # js) r = mark_items n js (r[item_of n i := True])"
    by (simp add: mark_items_def)
  have "j < length (r[item_of n i := True])" using Cons.prems by simp
  then have "mark_items n js (r[item_of n i := True]) ! j
               = (r[item_of n i := True] ! j \<or> j \<in> item_of n ` set js)"
    by (rule Cons.IH)
  moreover have "r[item_of n i := True] ! j = (r ! j \<or> j = item_of n i)"
    using Cons.prems by (cases "j = item_of n i") simp_all
  ultimately show ?case using step by auto
qed

lemma in_range_nonzero: "list_all (in_range (length row)) (nonzero row)"
  by (auto simp: nonzero_def in_range_def list_all_iff)

lemma takeWhile_all: "list_all P xs \<Longrightarrow> takeWhile P xs = xs"
  by (simp add: list_all_iff)

lemma mark_items_nonzero:
  "mark_items (length row) (nonzero row) (replicate (length row) False) = row"
proof (rule nth_equalityI)
  show "length (mark_items (length row) (nonzero row) (replicate (length row) False)) = length row"
    by simp
next
  fix j assume "j < length (mark_items (length row) (nonzero row) (replicate (length row) False))"
  then have j: "j < length row" by simp
  have "item_of (length row) (int k) = k" for k by (simp add: item_of_def)
  then have "item_of (length row) ` set (nonzero row) = {i. i < length row \<and> row ! i}"
    by (auto simp: nonzero_def image_iff)
  then show "mark_items (length row) (nonzero row) (replicate (length row) False) ! j = row ! j"
    using j by (simp add: nth_mark_items)
qed

text \<open>
  C9. Let \<open>s\<close> be a state whose canvas rows have one entry per item of the collection that
  \<open>t\<close> is loaded into. Then \<open>serialize s\<close> returns a payload \<open>d\<close>, and \<open>deserialize d\<close> on
  \<open>t\<close> returns normally with the canvas rows of \<open>s\<close> as the only rows and with no group:
  an item is positive (negative) on the canvas afterwards exactly when it was in \<open>s\<close>.
  The payload is the same for every state with these two canvas rows, whatever its groups
  and their rows are: nothing else is persisted.
\<close>

theorem serialize_deserialize_roundtrip:
  assumes "positive s \<noteq> []" "negative s \<noteq> []"
    and "length (positive s ! 0) = length (paths t)" "length (negative s ! 0) = length (paths t)"
  shows "\<exists>d. serialize s = Inr d \<and>
      deserialize d t = Done (t\<lparr>groups := [], positive := [positive s ! 0], negative := [negative s ! 0]\<rparr>) \<and>
      serialize (s\<lparr>groups := gs, positive := positive s ! 0 # ps, negative := negative s ! 0 # ns\<rparr>) = Inr d"
proof -
  let ?d = "\<lparr>p_positive = nonzero (positive s ! 0), p_negative = nonzero (negative s ! 0)\<rparr>"
  have ser: "serialize s = Inr ?d" using assms by (simp add: serialize_def)
  have ser': "serialize (s\<lparr>groups := gs, positive := positive s ! 0 # ps, negative := negative s ! 0 # ns\<rparr>) = Inr ?d"
    by (simp add: serialize_def)
  have p: "set_all [replicate (length (paths t)) False] (nonzero (positive s ! 0)) = (None, [positive s ! 0])"
    using in_range_nonzero[of "positive s ! 0"] mark_items_nonzero[of "positive s ! 0"] assms(3)
    by (simp add: set_all_conv takeWhile_all)
  have n: "set_all [replicate (length (paths t)) False] (nonzero (negative s ! 0)) = (None, [negative s ! 0])"
    using in_range_nonzero[of "negative s ! 0"] mark_items_nonzero[of "negative s ! 0"] assms(4)
    by (simp add: set_all_conv takeWhile_all)
  have "deserialize ?d t = Done (t\<lparr>groups := [], positive := [positive s ! 0], negative := [negative s ! 0]\<rparr>)"
    by (simp add: deserialize_def Let_def p n)
  with ser ser' show ?thesis by blast
qed

theorem serialize_deserialize_roundtrip_witness:
  "\<exists>d. serialize \<lparr>paths = [''a'', ''b'', ''c''], positive = [[True, False, False], [True, False, False]],
            negative = [[False, False, True], [False, True, False]], groups = [4::nat]\<rparr> = Inr d \<and>
       deserialize d \<lparr>paths = [''a'', ''b'', ''c''], positive = [[True, False, False], [True, False, False]],
            negative = [[False, False, True], [False, True, False]], groups = [4::nat]\<rparr>
         = Done \<lparr>paths = [''a'', ''b'', ''c''], positive = [[True, False, False]],
              negative = [[False, False, True]], groups = []\<rparr>"
  using serialize_deserialize_roundtrip[where gs = "[]" and ps = "[]" and ns = "[]" and
      s = "\<lparr>paths = [''a'', ''b'', ''c''], positive = [[True, False, False], [True, False, False]],
            negative = [[False, False, True], [False, True, False]], groups = [4::nat]\<rparr>" and
      t = "\<lparr>paths = [''a'', ''b'', ''c''], positive = [[True, False, False], [True, False, False]],
            negative = [[False, False, True], [False, True, False]], groups = [4::nat]\<rparr>"]
  by auto

text \<open>
  C6, as the claim states it, fails: \<open>deserialize\<close> validates nothing. It clears the group
  list and resets both tensors first and then sets the entries one by one, so when index 5
  raises on a collection of two items, the state is not the one before the call and the
  in-range index 0 before it has been applied. Nor is every index outside \<open>0 .. N-1\<close>
  rejected: \<open>-1\<close> addresses the last item.
\<close>

theorem deserialize_not_atomic_counterexample:
  "deserialize \<lparr>p_positive = [0, 5], p_negative = []\<rparr>
     \<lparr>paths = [''a'', ''b''], positive = [[False, True], [True, False]],
      negative = [[False, False], [False, True]], groups = [7::nat]\<rparr>
   = Raise IndexError
       \<lparr>paths = [''a'', ''b''], positive = [[True, False]], negative = [[False, False]], groups = []\<rparr>
   \<and> deserialize \<lparr>p_positive = [- 1], p_negative = []\<rparr>
     \<lparr>paths = [''a'', ''b''], positive = [[False, False]], negative = [[False, False]], groups = ([]::nat list)\<rparr>
   = Done \<lparr>paths = [''a'', ''b''], positive = [[False, True]], negative = [[False, False]], groups = []\<rparr>"
  by (simp add: deserialize_def set_entry_def tensor_index_def)

text \<open>
  C6, amended. With \<open>N\<close> the number of items: if the payload holds an index outside
  \<open>-N .. N-1\<close>, \<open>deserialize\<close> raises at the first such index, \<open>IndexError\<close> when the
  index fits 64 bits and the overflow error \<open>ValueError\<close> when it does not; the state it
  leaves has no group and one row per tensor, holding the marks of the indices that precede
  that index (the positive list is applied first, and the negative list only after all of
  it). If every index lies in \<open>-N .. N-1\<close>, the load succeeds and an index \<open>i\<close> below 0 is
  not rejected: it marks item \<open>N + i\<close>.
\<close>

theorem deserialize_rejects_out_of_range:
  "(\<not> list_all (in_range (length (paths s))) (p_positive data @ p_negative data) \<longrightarrow>
      deserialize data s =
        Raise (index_failure (first_rejected (length (paths s)) (p_positive data @ p_negative data)))
          (s\<lparr>groups := [],
             positive := [applied_prefix (length (paths s)) (p_positive data)],
             negative := [applied_prefix (length (paths s))
                            (if list_all (in_range (length (paths s))) (p_positive data)
                             then p_negative data else [])]\<rparr>)) \<and>
   (list_all (in_range (length (paths s))) (p_positive data @ p_negative data) \<longrightarrow>
      deserialize data s =
        Done (s\<lparr>groups := [],
                positive := [mark_items (length (paths s)) (p_positive data)
                               (replicate (length (paths s)) False)],
                negative := [mark_items (length (paths s)) (p_negative data)
                               (replicate (length (paths s)) False)]\<rparr>))"
proof (intro conjI impI)
  let ?N = "length (paths s)"
  assume bad: "\<not> list_all (in_range ?N) (p_positive data @ p_negative data)"
  show "deserialize data s =
        Raise (index_failure (first_rejected ?N (p_positive data @ p_negative data)))
          (s\<lparr>groups := [],
             positive := [applied_prefix ?N (p_positive data)],
             negative := [applied_prefix ?N
                            (if list_all (in_range ?N) (p_positive data)
                             then p_negative data else [])]\<rparr>)"
  proof (cases "list_all (in_range ?N) (p_positive data)")
    case True
    with bad have n: "\<not> list_all (in_range ?N) (p_negative data)" by simp
    have "dropWhile (in_range ?N) (p_positive data @ p_negative data)
            = dropWhile (in_range ?N) (p_negative data)"
      using True by (simp add: dropWhile_append list_all_iff)
    then have "first_rejected ?N (p_positive data @ p_negative data)
                 = first_rejected ?N (p_negative data)"
      by (simp add: first_rejected_def)
    with True n show ?thesis
      by (simp add: deserialize_def Let_def set_all_conv applied_prefix_def takeWhile_all)
  next
    case False
    then obtain x where x: "x \<in> set (p_positive data)" "\<not> in_range ?N x"
      by (auto simp: list_all_iff)
    then have ne: "dropWhile (in_range ?N) (p_positive data) \<noteq> []"
      by auto
    have "dropWhile (in_range ?N) (p_positive data @ p_negative data)
            = dropWhile (in_range ?N) (p_positive data) @ p_negative data"
      using x by (rule dropWhile_append1)
    then have "first_rejected ?N (p_positive data @ p_negative data)
                 = first_rejected ?N (p_positive data)"
      using ne by (simp add: first_rejected_def)
    with False show ?thesis
      by (simp add: deserialize_def Let_def set_all_conv applied_prefix_def mark_items_def)
  qed
next
  let ?N = "length (paths s)"
  assume "list_all (in_range ?N) (p_positive data @ p_negative data)"
  then show "deserialize data s =
        Done (s\<lparr>groups := [],
                positive := [mark_items ?N (p_positive data) (replicate ?N False)],
                negative := [mark_items ?N (p_negative data) (replicate ?N False)]\<rparr>)"
    by (simp add: deserialize_def Let_def set_all_conv takeWhile_all)
qed

theorem deserialize_rejects_out_of_range_witness:
  "deserialize \<lparr>p_positive = [1], p_negative = [0, - 3, 1]\<rparr>
     \<lparr>paths = [''a'', ''b''], positive = [[False, False], [True, False]],
      negative = [[False, True], [False, True]], groups = [7::nat]\<rparr>
   = Raise IndexError
       \<lparr>paths = [''a'', ''b''], positive = [[False, True]], negative = [[True, False]], groups = []\<rparr>
   \<and> deserialize \<lparr>p_positive = [2 ^ 63], p_negative = []\<rparr>
     \<lparr>paths = [''a'', ''b''], positive = [[False, False], [True, False]],
      negative = [[False, True], [False, True]], groups = [7::nat]\<rparr>
   = Raise ValueError
       \<lparr>paths = [''a'', ''b''], positive = [[False, False]], negative = [[False, False]], groups = []\<rparr>
   \<and> deserialize \<lparr>p_positive = [- 2], p_negative = [- 1]\<rparr>
     \<lparr>paths = [''a'', ''b''], positive = [[False, False], [True, False]],
      negative = [[False, True], [False, True]], groups = [7::nat]\<rparr>
   = Done
       \<lparr>paths = [''a'', ''b''], positive = [[True, False]], negative = [[False, True]], groups = []\<rparr>"
  using deserialize_rejects_out_of_range[of
      "\<lparr>paths = [''a'', ''b''], positive = [[False, False], [True, False]],
        negative = [[False, True], [False, True]], groups = [7::nat]\<rparr>"
      "\<lparr>p_positive = [1], p_negative = [0, - 3, 1]\<rparr>"]
    deserialize_rejects_out_of_range[of
      "\<lparr>paths = [''a'', ''b''], positive = [[False, False], [True, False]],
        negative = [[False, True], [False, True]], groups = [7::nat]\<rparr>"
      "\<lparr>p_positive = [2 ^ 63], p_negative = []\<rparr>"]
    deserialize_rejects_out_of_range[of
      "\<lparr>paths = [''a'', ''b''], positive = [[False, False], [True, False]],
        negative = [[False, True], [False, True]], groups = [7::nat]\<rparr>"
      "\<lparr>p_positive = [- 2], p_negative = [- 1]\<rparr>"]
  by (simp add: applied_prefix_def in_range_def mark_items_def item_of_def index_failure_def
      first_rejected_def)

section \<open>The margin loss\<close>

lemma tensor_max_Max: "xs \<noteq> [] \<Longrightarrow> tensor_max xs = Max (set xs)"
  by (cases xs) (simp_all add: tensor_max_def Max.set_eq_fold[symmetric])

text \<open>
  C3. For every center row \<open>c\<close>, every non-empty list \<open>P\<close> of positive rows and every
  non-empty list \<open>Q\<close> of negative rows, the loss of the embedder, \<open>CenterMarginLoss(0.1)\<close>,
  is the mean over \<open>P\<close> of \<open>1 - c \<cdot> p\<close> plus the mean over \<open>Q\<close> of
  \<open>relu(max\<^sub>p (1 - c \<cdot> p) - (1 - c \<cdot> q) + 0.1)\<close>. The rows need not have unit norm for this.
\<close>

theorem center_margin_loss_formula:
  assumes "P \<noteq> []" "Q \<noteq> []"
  shows "loss_func c P Q = Inr (Some (margin_loss_spec (1 / 10) c P Q))"
proof -
  have m: "tensor_max (map (\<lambda>p. 1 - dot c p) P) = Max ((\<lambda>p. cos_dist c p) ` set P)"
    using assms(1) by (simp add: tensor_max_Max cos_dist_def)
  show ?thesis
    using assms
    by (simp add: loss_func_def CenterMarginLoss_forward_def Let_def m mean_def relu_def
        margin_loss_spec_def cos_dist_def comp_def)
qed

theorem center_margin_loss_formula_witness:
  "loss_func [1, 0] [[1, 0], [0, 1]] [[0, 1], [- 1, 0]]
     = Inr (Some (margin_loss_spec (1 / 10) [1, 0] [[1, 0], [0, 1]] [[0, 1], [- 1, 0]]))
   \<and> margin_loss_spec (1 / 10) [1, 0] [[1, 0], [0, 1]] [[0, 1], [- 1, 0]] = 11 / 20"
  using center_margin_loss_formula[of "[[1, 0], [0, 1]]" "[[0, 1], [- 1, 0]]" "[1, 0]"]
  by (simp add: margin_loss_spec_def cos_dist_def dot_def)

section \<open>The gate\<close>

lemma dot_le_half_squares: "dot x y \<le> (sum_list (map (\<lambda>v. v * v) x) + sum_list (map (\<lambda>v. v * v) y)) / 2"
proof (induction x arbitrary: y)
  case Nil
  have "0 \<le> sum_list (map (\<lambda>v. v * v) y)" by (rule sum_list_nonneg) auto
  then show ?case by (simp add: dot_def)
next
  case (Cons a x)
  show ?case
  proof (cases y)
    case Nil
    have "0 \<le> sum_list (map (\<lambda>v. v * v) (a # x))" by (rule sum_list_nonneg) auto
    then show ?thesis using Nil by (simp add: dot_def)
  next
    case (Cons b y')
    have "a * b \<le> (a * a + b * b) / 2"
      using zero_le_square[of "a - b"] by (simp add: algebra_simps)
    moreover have "dot x y' \<le> (sum_list (map (\<lambda>v. v * v) x) + sum_list (map (\<lambda>v. v * v) y')) / 2"
      by (rule Cons.IH)
    ultimately show ?thesis using Cons by (simp add: dot_def field_simps)
  qed
qed

lemma sum_list_div_const: "(\<Sum>v\<leftarrow>xs. f v / c) = (\<Sum>v\<leftarrow>xs. f v) / (c::real)"
  by (induction xs) (simp_all add: add_divide_distrib)

lemma sum_squares_normalize_le_1: "sum_list (map (\<lambda>v. v * v) (fn_normalize_row x)) \<le> 1"
proof -
  let ?s = "sum_list (map (\<lambda>v. v * v) x)"
  let ?m = "max (l2_norm x) (1 / 10 ^ 12)"
  have s0: "0 \<le> ?s" by (rule sum_list_nonneg) auto
  have mpos: "0 < ?m" by (simp add: max_def)
  have "sum_list (map (\<lambda>v. v * v) (fn_normalize_row x)) = sum_list (map (\<lambda>v. (v * v) / (?m * ?m)) x)"
    by (simp add: fn_normalize_row_def comp_def)
  also have "\<dots> = ?s / (?m * ?m)"
    by (rule sum_list_div_const)
  finally have eq: "sum_list (map (\<lambda>v. v * v) (fn_normalize_row x)) = ?s / (?m * ?m)" .
  have sq: "l2_norm x * l2_norm x = ?s" using s0 by (simp add: l2_norm_def)
  have n0: "0 \<le> l2_norm x" by (simp add: l2_norm_def s0)
  have le: "l2_norm x \<le> ?m" by simp
  have m0: "0 \<le> ?m" using mpos by simp
  have "l2_norm x * l2_norm x \<le> ?m * ?m"
    by (rule mult_mono[OF le le m0 n0])
  then have "?s \<le> ?m * ?m" using sq by simp
  then show ?thesis using eq mpos by simp
qed

lemma cosine_similarity_le_1: "cosine_similarity x y \<le> 1"
  using dot_le_half_squares[of "fn_normalize_row x" "fn_normalize_row y"]
    sum_squares_normalize_le_1[of x] sum_squares_normalize_le_1[of y]
  by (simp add: cosine_similarity_def)


lemma weight_single_row:
  assumes "concat (center m) \<noteq> []"
  shows "weight m [e] =
     Inr (tensor_max (map (\<lambda>c. exp (- 10 * (1 - cosine_similarity e c))) (concat (center m))))"
proof -
  have c: "center m \<noteq> []" using assms by auto
  show ?thesis
    using assms c
    by (simp add: weight_def Let_def fn_normalize_def mm_transpose_def cosine_similarity_def comp_def)
qed

lemma gate_mono: "mono (\<lambda>v::real. exp (- 10 * (1 - v)))"
  by (rule monoI) simp

lemma max_gate:
  assumes "cs \<noteq> []"
  shows "tensor_max (map (\<lambda>c. exp (- 10 * (1 - cosine_similarity e c))) cs)
           = exp (- 10 * (1 - max_cosine_similarity e cs))"
proof -
  let ?A = "(\<lambda>c. cosine_similarity e c) ` set cs"
  have ne: "?A \<noteq> {}" and fin: "finite ?A" using assms by simp_all
  have "tensor_max (map (\<lambda>c. exp (- 10 * (1 - cosine_similarity e c))) cs)
          = Max ((\<lambda>v. exp (- 10 * (1 - v))) ` ?A)"
    using assms by (simp add: tensor_max_Max image_image)
  also have "\<dots> = exp (- 10 * (1 - Max ?A))"
    by (rule mono_Max_commute[OF gate_mono fin ne, symmetric])
  finally show ?thesis by (simp add: max_cosine_similarity_def)
qed

lemma max_cosine_similarity_le_1:
  assumes "cs \<noteq> []"
  shows "max_cosine_similarity e cs \<le> 1"
  using assms by (simp add: max_cosine_similarity_def cosine_similarity_le_1)

lemma nrm_simps:
  "fn_normalize_row [1, 0] = [1, 0]" "fn_normalize_row [0, 1] = [0, 1]"
  "fn_normalize_row [- 1, 0] = [- 1, 0]" "fn_normalize_row [0, - 1] = [0, - 1]"
  by (simp_all add: fn_normalize_row_def l2_norm_def)

lemma init_2: "LocalSplitMLP_init 2 =
     \<lparr>center = [],
      mlp_image = \<lparr>lin_weight = [[1, 0], [0, 1]], lin_bias = [0, 0]\<rparr>,
      mlp_text = \<lparr>lin_weight = [[1, 0], [0, 1]], lin_bias = [0, 0]\<rparr>\<rparr>"
  by (simp add: LocalSplitMLP_init_def eye_def eval_nat_numeral)

lemma update_data_loop_conv:
  assumes "list_all (\<lambda>i. i < length pos) js"
  shows "update_data_loop enc ge pos js acc =
     Inr (acc @ concat (map (\<lambda>i. [pos ! i, fn_normalize (Embedder_encode_text enc (ge ! i))]) js))"
  using assms by (induction js arbitrary: acc) simp_all

lemma update_data_center:
  assumes "length ge \<le> length pos"
  shows "update_data enc E ge pos neg =
     Done (E\<lparr>embedder := (embedder E)\<lparr>center :=
        concat (map (\<lambda>i. [pos ! i, fn_normalize (Embedder_encode_text enc (ge ! i))]) [0..<length ge])\<rparr>\<rparr>)"
proof -
  have "list_all (\<lambda>i. i < length pos) [0..<length ge]" using assms by (simp add: list_all_iff)
  then show ?thesis by (simp add: update_data_def update_data_loop_conv)
qed

text \<open>
  The centers that \<open>update_data\<close> registers: none when there is no group, and at least
  one row (the text center) for every group when the encoder returns a row for every text.
\<close>

lemma update_data_rows:
  assumes "length ge \<le> length pos" and "\<And>t. enc t \<noteq> []"
  shows "\<exists>E'. update_data enc E ge pos neg = Done E' \<and>
           (ge = [] \<longrightarrow> center (embedder E') = []) \<and>
           (ge \<noteq> [] \<longrightarrow> concat (center (embedder E')) \<noteq> [])"
proof -
  let ?c = "concat (map (\<lambda>i. [pos ! i, fn_normalize (Embedder_encode_text enc (ge ! i))]) [0..<length ge])"
  have r: "fn_normalize (Embedder_encode_text enc t) \<noteq> []" for t
    using assms(2)[of t] by (simp add: fn_normalize_def Embedder_encode_text_def)
  have "concat ?c \<noteq> []" if "ge \<noteq> []"
  proof -
    from that have "0 < length ge" by simp
    then have "fn_normalize (Embedder_encode_text enc (ge ! 0)) \<in> set ?c" by force
    with r[of "ge ! 0"] show ?thesis by (simp del: set_concat) blast
  qed
  then show ?thesis
    using update_data_center[OF assms(1), of enc E neg] by simp
qed

text \<open>
  C7, as the claim states it, fails: the gate is not per domain. \<open>encode_text\<close> and
  \<open>encode_image\<close> call the same \<open>weight\<close> on the one list \<open>center\<close>, in which
  \<open>update_data\<close> puts the positive image rows and the text center of every group. For a
  group with a name and no positive example the image domain has no center, and the gate
  of an image row equal to the text center is 1, not 0.
\<close>

theorem weight_ignores_domain_counterexample:
  "weight \<lparr>center = [[], [[0, 1]]],
           mlp_image = \<lparr>lin_weight = [[1, 0], [0, 1]], lin_bias = [0, 0]\<rparr>,
           mlp_text = \<lparr>lin_weight = [[1, 0], [0, 1]], lin_bias = [0, 0]\<rparr>\<rparr> [[0, 1]] = Inr 1
   \<and> weight_for_spec ImageDomain
          \<lparr>center = [[], [[0, 1]]],
           mlp_image = \<lparr>lin_weight = [[1, 0], [0, 1]], lin_bias = [0, 0]\<rparr>,
           mlp_text = \<lparr>lin_weight = [[1, 0], [0, 1]], lin_bias = [0, 0]\<rparr>\<rparr> [0, 1] = 0
   \<and> update_data (\<lambda>_. [[0, 1]])
          \<lparr>embedder = LocalSplitMLP_init 2, optimizer = ()\<rparr> [''g''] [[]] [[]]
       = Done \<lparr>embedder = \<lparr>center = [[], [[0, 1]]],
           mlp_image = \<lparr>lin_weight = [[1, 0], [0, 1]], lin_bias = [0, 0]\<rparr>,
           mlp_text = \<lparr>lin_weight = [[1, 0], [0, 1]], lin_bias = [0, 0]\<rparr>\<rparr>, optimizer = ()\<rparr>"
  by (simp add: weight_def Let_def fn_normalize_def nrm_simps mm_transpose_def dot_def tensor_max_def
      weight_for_spec_def update_data_def Embedder_encode_text_def init_2)

text \<open>
  C7, amended. The gate is the same function for both domains, over the one center list.
  For a single row \<open>e\<close>: with no center tensor registered at all the gate is exactly 0;
  when the registered tensors hold at least one row, of whichever domain, it is
  \<open>exp(-10 * (1 - s))\<close>, \<open>s\<close> the largest cosine similarity of \<open>e\<close> to any of these rows,
  and over the reals this number lies between 0 and 1.
\<close>

theorem weight_single_embedding:
  "(center m = [] \<longrightarrow> weight m [e] = Inr 0) \<and>
   (concat (center m) \<noteq> [] \<longrightarrow>
      weight m [e] = Inr (exp (- 10 * (1 - max_cosine_similarity e (concat (center m))))) \<and>
      0 \<le> exp (- 10 * (1 - max_cosine_similarity e (concat (center m)))) \<and>
      exp (- 10 * (1 - max_cosine_similarity e (concat (center m)))) \<le> 1)"
proof (intro conjI impI)
  assume "center m = []"
  then show "weight m [e] = Inr 0" by (simp add: weight_def)
next
  assume a: "concat (center m) \<noteq> []"
  show "weight m [e] = Inr (exp (- 10 * (1 - max_cosine_similarity e (concat (center m)))))"
    using weight_single_row[OF a] max_gate[OF a] by simp
next
  show "0 \<le> exp (- 10 * (1 - max_cosine_similarity e (concat (center m))))" by simp
next
  assume a: "concat (center m) \<noteq> []"
  show "exp (- 10 * (1 - max_cosine_similarity e (concat (center m)))) \<le> 1"
    using max_cosine_similarity_le_1[OF a, of e] by simp
qed

theorem weight_single_embedding_witness:
  "weight \<lparr>center = [[[1, 0]], [[0, 1]]],
          mlp_image = \<lparr>lin_weight = [[1, 0], [0, 1]], lin_bias = [0, 0]\<rparr>,
          mlp_text = \<lparr>lin_weight = [[1, 0], [0, 1]], lin_bias = [0, 0]\<rparr>\<rparr> [[- 1, 0]]
     = Inr (exp (- 10 * (1 - max_cosine_similarity [- 1, 0] [[1, 0], [0, 1]])))
   \<and> max_cosine_similarity [- 1, 0] [[1, 0], [0, 1]] = 0"
  using weight_single_embedding[of "\<lparr>center = [[[1, 0]], [[0, 1]]],
          mlp_image = \<lparr>lin_weight = [[1, 0], [0, 1]], lin_bias = [0, 0]\<rparr>,
          mlp_text = \<lparr>lin_weight = [[1, 0], [0, 1]], lin_bias = [0, 0]\<rparr>\<rparr>" "[- 1, 0]"]
  by (simp add: max_cosine_similarity_def cosine_similarity_def nrm_simps dot_def)

lemma weight_batch_global:
  assumes "inp \<noteq> []" "concat (center m) \<noteq> []"
  shows "weight m inp =
     Inr (Max ((\<lambda>ac. exp (- 10 * (1 - cosine_similarity (fst ac) (snd ac))))
                 ` (set inp \<times> set (concat (center m)))))"
proof -
  let ?cs = "concat (center m)"
  let ?w = "concat (map (\<lambda>a. map (\<lambda>c. exp (- 10 * (1 - cosine_similarity a c))) ?cs) inp)"
  have c: "center m \<noteq> []" using assms by auto
  have eq: "concat (map (map (\<lambda>d. exp (- 10 * d)))
                 (map (map (\<lambda>v. 1 - v)) (mm_transpose (fn_normalize inp) (fn_normalize ?cs)))) = ?w"
    by (simp add: fn_normalize_def mm_transpose_def cosine_similarity_def comp_def)
  obtain a where a: "a \<in> set inp" using assms(1) by (cases inp) auto
  have ne: "?w \<noteq> []" using assms a by auto
  have w: "weight m inp = Inr (tensor_max ?w)"
    unfolding weight_def Let_def eq using c ne by simp
  have "set ?w = (\<lambda>ac. exp (- 10 * (1 - cosine_similarity (fst ac) (snd ac)))) ` (set inp \<times> set ?cs)"
    by force
  then show ?thesis using w ne by (simp add: tensor_max_Max)
qed

text \<open>
  C2 (the code departs from the claim). The gate should be per item, so that an item far
  from every center passes through unchanged whatever else is in the batch. \<open>weight\<close>
  reduces the whole matrix of batch rows against center rows with one \<open>max\<close>, so the batch
  shares one gate, that of its row closest to a center. With the centers of one group
  whose positive example is item 0, \<open>(1, 0)\<close>, and whose text center is \<open>(0, 1)\<close>, the
  table of the two items \<open>(1, 0)\<close> and \<open>(-1, 0)\<close> gets the gate 1; item 1 alone has the
  gate \<open>exp(-10)\<close>. With the image map a rotation by a quarter turn, the refined row of
  item 1 is \<open>(0, 1)\<close>: fully corrected, at cosine 0 to its base embedding.
\<close>

theorem weight_is_shared_by_the_batch:
  "weight \<lparr>center = [[[1, 0]], [[0, 1]]],
           mlp_image = \<lparr>lin_weight = [[1, 0], [0, 1]], lin_bias = [0, 0]\<rparr>,
           mlp_text = \<lparr>lin_weight = [[0, 1], [- 1, 0]], lin_bias = [0, 0]\<rparr>\<rparr>
      [[1, 0], [- 1, 0]] = Inr 1
   \<and> weight \<lparr>center = [[[1, 0]], [[0, 1]]],
           mlp_image = \<lparr>lin_weight = [[1, 0], [0, 1]], lin_bias = [0, 0]\<rparr>,
           mlp_text = \<lparr>lin_weight = [[0, 1], [- 1, 0]], lin_bias = [0, 0]\<rparr>\<rparr>
      [[- 1, 0]] = Inr (exp (- 10))
   \<and> map_sum id fst
       (LocalSplitMLP_encode_image
          \<lparr>center = [[[1, 0]], [[0, 1]]],
           mlp_image = \<lparr>lin_weight = [[1, 0], [0, 1]], lin_bias = [0, 0]\<rparr>,
           mlp_text = \<lparr>lin_weight = [[0, 1], [- 1, 0]], lin_bias = [0, 0]\<rparr>\<rparr>
          [[1, 0], [- 1, 0]]) = Inr [[0, - 1], [0, 1]]"
  by (simp add: LocalSplitMLP_encode_image_def weight_def Let_def fn_normalize_def nrm_simps
      mm_transpose_def dot_def tensor_max_def nn_linear_def blend_def)

section \<open>The training cycle\<close>















section \<open>Search\<close>

lemma enc_id: "map_sum id fst (LocalSplitMLP_encode_text (LocalSplitMLP_init 2) [[1, 0]]) = Inr [[1, 0]]"
  "map_sum id fst (LocalSplitMLP_encode_image (LocalSplitMLP_init 2) [[1, 0]]) = Inr [[1, 0]]"
  by (simp_all add: init_2 LocalSplitMLP_encode_text_def LocalSplitMLP_encode_image_def weight_def Let_def
       nn_linear_def dot_def fn_normalize_def nrm_simps blend_def)

lemma embed_sum: "(case x of Inl e \<Rightarrow> Inl e | Inr r \<Rightarrow> Inr (fst r)) = map_sum id fst x"
  by (cases x) simp_all

text \<open>
  C1 (the code departs from the claim). Every returned id should satisfy the mask. The
  rows of invalid items are multiplied by zero, which gives them the similarity 0, not a
  similarity below every valid one. With item 1 on the canvas the mask of
  \<open>restrict_search\<close> is \<open>[True, False]\<close>. \<open>search_by_image\<close> does not clamp \<open>topk\<close>: asked
  for as many results as there are items, as \<open>ArtSearch.image_search\<close> asks, it returns
  item 1 as well. \<open>search_by_text\<close> clamps \<open>topk\<close> to the one valid item, and when that
  item's similarity to the query is negative, the one result is the invalid item 1. No two
  similarities are equal in either input, so this is the result for every order \<open>tie\<close> of
  equal values.
\<close>

theorem search_returns_masked_items:
  "restrict_search (\<lambda>_ _. [])
     \<lparr>paths = [''a'', ''b''], positive = [[False, True]], negative = [[False, False]],
      groups = ([]::nat list)\<rparr> []
     = Inr [True, False]
   \<and> search_by_image tie (\<lambda>_::nat. [[1, 0]])
     \<lparr>encodings = [[1, 0], [0, 1]], embeddings = [[1, 0], [0, 1]],
      engine_embedder = \<lparr>embedder = LocalSplitMLP_init 2, optimizer = ()\<rparr>,
      group_embeddings = [], pos_example = [], neg_example = [],
      data_changed = False, use_embedding = True\<rparr>
     [True, False] 0 2 = Inr [0, 1]
   \<and> search_by_text tie (\<lambda>_. [[1, 0]])
     \<lparr>encodings = [[- 1, 0], [1, 0]], embeddings = [[- 1, 0], [1, 0]],
      engine_embedder = \<lparr>embedder = LocalSplitMLP_init 2, optimizer = ()\<rparr>,
      group_embeddings = [], pos_example = [], neg_example = [],
      data_changed = False, use_embedding = True\<rparr>
     [True, False] ''q'' 2 = Inr [1]"
  by (simp add: restrict_search_def mask_and_not_def
      search_by_image_def embed_image_def Embedder_encode_image_def
      search_by_text_def embed_text_def Embedder_encode_text_def embed_sum
      fn_normalize_def nrm_simps enc_id[unfolded fn_normalize_def] enc_id
      mask_rows_def scale_row_def similarity_column0_def dot_def topk_def)

end
